theory Spec2Isabelle
  imports Complex_Main "HOL-Library.Word"
begin

section \<open>JavaScript strings\<close>

text \<open>
  A JavaScript string is a sequence of UTF-16 code units; \<open>length\<close>, \<open>substring\<close>,
  \<open>includes\<close> and \<open>startsWith\<close> all count and compare code units. Source literals are
  ASCII and are written through \<open>js\<close>.
\<close>

type_synonym jschar = "16 word"
type_synonym jsstring = "jschar list"

definition js :: "string \<Rightarrow> jsstring" where
  "js s = map of_char s"

text \<open>\<open>String.prototype.startsWith(p)\<close> and \<open>String.prototype.includes(p)\<close>.\<close>

fun startsWith :: "jsstring \<Rightarrow> jsstring \<Rightarrow> bool" where
  "startsWith s [] = True"
| "startsWith [] (p # ps) = False"
| "startsWith (c # cs) (p # ps) = (c = p \<and> startsWith cs ps)"

fun includes_str :: "jsstring \<Rightarrow> jsstring \<Rightarrow> bool" where
  "includes_str [] p = (p = [])"
| "includes_str (c # cs) p = (startsWith (c # cs) p \<or> includes_str cs p)"

text \<open>\<open>String.prototype.substring(start, end)\<close> on non-negative integer arguments:
  both are clamped to the length and swapped when out of order.\<close>

definition substring :: "jsstring \<Rightarrow> nat \<Rightarrow> nat \<Rightarrow> jsstring" where
  "substring s start end' =
     (let a = min start (length s); b = min end' (length s)
      in take (max a b - min a b) (drop (min a b) s))"

text \<open>\<open>Array.prototype.slice(0, n)\<close> for a non-negative \<open>n\<close>.\<close>

definition slice0 :: "'a list \<Rightarrow> nat \<Rightarrow> 'a list" where
  "slice0 xs n = take n xs"

text \<open>The code units removed by \<open>String.prototype.trim\<close>: ECMAScript WhiteSpace and
  LineTerminator.\<close>

definition isWhiteSpace :: "jschar \<Rightarrow> bool" where
  "isWhiteSpace c =
     (c \<in> set [0x0009, 0x000A, 0x000B, 0x000C, 0x000D, 0x0020, 0x00A0, 0x1680,
                0x2028, 0x2029, 0x202F, 0x205F, 0x3000, 0xFEFF]
      \<or> (0x2000 \<le> c \<and> c \<le> 0x200A))"

definition trim :: "jsstring \<Rightarrow> jsstring" where
  "trim s = rev (dropWhile isWhiteSpace (rev (dropWhile isWhiteSpace s)))"

text \<open>Truthiness of a string: only the empty string is falsy.\<close>

definition truthy_string :: "jsstring \<Rightarrow> bool" where
  "truthy_string s = (s \<noteq> [])"

section \<open>The result envelope\<close>

text \<open>
  Values that come out of the backend's JSON. A JSON number is a finite double, hence a
  real; how the platform prints one is a parameter of the presenter (see \<open>platform\<close>).
\<close>

datatype scalar = JNull | JBool bool | JNum real | JStr jsstring

datatype json =
    Null | Bool bool | Num real | Str jsstring
  | Arr "json list" | Obj "(jsstring \<times> json) list"

text \<open>A row is an object; it is kept as its entries in the order \<open>Object.keys\<close>
  enumerates them.\<close>

type_synonym row = "(jsstring \<times> scalar) list"

record bucket =
  b_key :: scalar
  b_count :: real

datatype agg_value = Scalar scalar | Buckets "bucket list"

record timeline_item =
  t_date :: jsstring
  t_count :: real
  t_items :: "json list option"

text \<open>Every field of the envelope is optional: \<open>None\<close> is an absent key.\<close>

record envelope =
  total_results :: "real option"
  sources :: "jsstring list option"
  summary :: "jsstring option"
  aggregations :: "(jsstring \<times> (jsstring \<times> agg_value) list) list option"
  results :: "row list option"
  timeline :: "timeline_item list option"
  metadata :: "(jsstring \<times> scalar) list option"

record routing_info =
  use_elasticsearch :: bool
  use_postgresql :: bool

record query_info =
  intent :: "jsstring option"
  entities :: "jsstring list option"
  routing :: "routing_info option"

section \<open>chatService.js: the gateway client\<close>

text \<open>What axios rejects with: \<open>error.code\<close>, \<open>error.response?.status\<close> and
  \<open>error.message\<close>.\<close>

record axios_error =
  code :: "jsstring option"
  response_status :: "int option"
  message :: jsstring

text \<open>What the response interceptor throws: a fresh \<open>Error\<close> with a fixed message, or
  the error it was given.\<close>

datatype thrown = NewError jsstring | Original axios_error

definition responseInterceptor_onRejected :: "axios_error \<Rightarrow> thrown" where
  "responseInterceptor_onRejected error =
     (if code error = Some (js ''ECONNREFUSED'') then
        NewError (js ''Unable to connect to the server. Please make sure the backend is running.'')
      else if response_status error = Some 500 then
        NewError (js ''Server error occurred. Please try again.'')
      else if response_status error = Some 404 then
        NewError (js ''API endpoint not found.'')
      else Original error)"

text \<open>The body of \<open>POST /chat\<close> and of its answer.\<close>

record chat_request =
  req_message :: jsstring
  conversation_id :: jsstring

record chat_response =
  response :: jsstring
  resp_data :: "envelope option"
  query_info :: "query_info option"

text \<open>
  The network is a function from the request to what axios settles with. Every method of
  the service goes through the one \<open>apiClient\<close>, so a rejection reaches the caller only
  after the response interceptor; the method's own \<open>catch\<close> logs and rethrows. What the
  service writes to the console changes no result and is left out.
\<close>

definition apiClient :: "('q \<Rightarrow> axios_error + 'r) \<Rightarrow> 'q \<Rightarrow> thrown + 'r" where
  "apiClient transport q =
     (case transport q of
        Inl error \<Rightarrow> Inl (responseInterceptor_onRejected error)
      | Inr r \<Rightarrow> Inr r)"

definition sendMessage ::
  "(chat_request \<Rightarrow> axios_error + chat_response) \<Rightarrow> jsstring \<Rightarrow> jsstring \<Rightarrow> thrown + chat_response"
where
  "sendMessage post msg conversationId =
     (case apiClient post \<lparr>req_message = msg, conversation_id = conversationId\<rparr> of
        Inl error \<Rightarrow> Inl error
      | Inr r \<Rightarrow> Inr r)"

definition getHealth :: "(unit \<Rightarrow> axios_error + 'r) \<Rightarrow> thrown + 'r" where
  "getHealth get = (case apiClient get () of Inl error \<Rightarrow> Inl error | Inr r \<Rightarrow> Inr r)"

definition getElasticsearchSchema :: "(unit \<Rightarrow> axios_error + 'r) \<Rightarrow> thrown + 'r" where
  "getElasticsearchSchema get =
     (case apiClient get () of Inl error \<Rightarrow> Inl error | Inr r \<Rightarrow> Inr r)"

definition getPostgreSQLSchema :: "(unit \<Rightarrow> axios_error + 'r) \<Rightarrow> thrown + 'r" where
  "getPostgreSQLSchema get =
     (case apiClient get () of Inl error \<Rightarrow> Inl error | Inr r \<Rightarrow> Inr r)"

definition checkBackendAvailability :: "(unit \<Rightarrow> axios_error + 'r) \<Rightarrow> bool" where
  "checkBackendAvailability get = (case apiClient get () of Inl error \<Rightarrow> False | Inr r \<Rightarrow> True)"

section \<open>ChatInterface.js: the conversation\<close>

datatype sender = user | bot

text \<open>A message object; \<open>None\<close> is a key the object literal does not have (or whose
  value is \<open>undefined\<close>). \<open>Date.now()\<close> and \<open>new Date()\<close> are the clock, in
  milliseconds.\<close>

record message =
  m_id :: int
  m_type :: sender
  content :: jsstring
  data :: "envelope option"
  queryInfo :: "query_info option"
  error :: "bool option"
  timestamp :: int

text \<open>The component's state, and the errors handed to \<open>console.error\<close>.\<close>

record chat_state =
  messages :: "message list"
  inputValue :: jsstring
  isLoading :: bool
  console :: "thrown list"

definition conversationId :: jsstring where
  "conversationId = js ''default''"

definition userMessage :: "int \<Rightarrow> jsstring \<Rightarrow> message" where
  "userMessage now text =
     \<lparr>m_id = now, m_type = user, content = text, data = None, queryInfo = None,
      error = None, timestamp = now\<rparr>"

definition botMessage :: "int \<Rightarrow> chat_response \<Rightarrow> message" where
  "botMessage now r =
     \<lparr>m_id = now + 1, m_type = bot, content = response r, data = resp_data r,
      queryInfo = query_info r, error = None, timestamp = now\<rparr>"

definition errorMessage :: "int \<Rightarrow> message" where
  "errorMessage now =
     \<lparr>m_id = now + 1, m_type = bot,
      content = js ''Sorry, I encountered an error processing your request. Please try again.'',
      data = None, queryInfo = None, error = Some True, timestamp = now\<rparr>"

text \<open>\<open>handleSendMessage\<close> up to its \<open>await\<close>: the guard, the user message, and the
  request it issues (\<open>None\<close> when it returned at the guard).\<close>

definition handleSendMessage_start ::
  "int \<Rightarrow> chat_state \<Rightarrow> chat_state \<times> chat_request option"
where
  "handleSendMessage_start now st =
     (if \<not> truthy_string (trim (inputValue st)) \<or> isLoading st then (st, None)
      else
        (st\<lparr>messages := messages st @ [userMessage now (inputValue st)],
            inputValue := [],
            isLoading := True\<rparr>,
         Some \<lparr>req_message = inputValue st, conversation_id = conversationId\<rparr>))"

text \<open>\<open>handleSendMessage\<close> after the \<open>await\<close>: the \<open>try\<close> body on a response, the
  \<open>catch\<close> on anything thrown, then \<open>finally\<close>.\<close>

definition handleSendMessage_settle ::
  "int \<Rightarrow> thrown + chat_response \<Rightarrow> chat_state \<Rightarrow> chat_state"
where
  "handleSendMessage_settle now outcome st =
     (case outcome of
        Inr r \<Rightarrow> st\<lparr>messages := messages st @ [botMessage now r], isLoading := False\<rparr>
      | Inl e \<Rightarrow>
          st\<lparr>messages := messages st @ [errorMessage now],
             console := console st @ [e],
             isLoading := False\<rparr>)"

text \<open>One whole call, with nothing else happening while the request is in flight.\<close>

definition handleSendMessage ::
  "(chat_request \<Rightarrow> axios_error + chat_response) \<Rightarrow> int \<Rightarrow> int \<Rightarrow> chat_state \<Rightarrow> chat_state"
where
  "handleSendMessage post now now' st =
     (case handleSendMessage_start now st of
        (st', None) \<Rightarrow> st'
      | (st', Some q) \<Rightarrow>
          handleSendMessage_settle now'
            (sendMessage post (req_message q) (conversation_id q)) st')"

definition handleQuickQuery :: "jsstring \<Rightarrow> chat_state \<Rightarrow> chat_state" where
  "handleQuickQuery query st = st\<lparr>inputValue := query\<rparr>"

section \<open>ResultsDisplay.js: the presenter\<close>

text \<open>
  What the presenter takes from the JavaScript platform and does not compute itself.
  \<open>new Date(s)\<close> never throws on a string: it makes a date whose time value is the parse
  of \<open>s\<close>, or NaN (here \<open>None\<close>) when \<open>s\<close> does not parse.
  \<open>Object_prototype\<close> says which property names every object inherits from
  \<open>Object.prototype\<close> (\<open>constructor\<close>, \<open>toString\<close>, ...): for such a name it gives the
  string that the inherited value's \<open>toString()\<close> returns.
\<close>

record platform =
  Number_toString :: "real \<Rightarrow> jsstring"
  Number_toLocaleString :: "real \<Rightarrow> jsstring"
  Date_parse :: "jsstring \<Rightarrow> int option"
  Date_toLocaleDateString :: "int \<Rightarrow> jsstring"
  JSON_stringify :: "json \<Rightarrow> jsstring"
  JSON_stringify_indent2 :: "envelope \<Rightarrow> jsstring"
  String_toUpperCase :: "jsstring \<Rightarrow> jsstring"
  Object_prototype :: "jsstring \<Rightarrow> jsstring option"

text \<open>The two \<open>useState\<close> cells of the component.\<close>

record presentation_state =
  viewMode :: string
  showRawData :: bool

definition initial_state :: presentation_state where
  "initial_state = \<lparr>viewMode = ''summary'', showRawData = False\<rparr>"

definition setViewMode :: "string \<Rightarrow> presentation_state \<Rightarrow> presentation_state" where
  "setViewMode m st = st\<lparr>viewMode := m\<rparr>"

definition setShowRawData :: "bool \<Rightarrow> presentation_state \<Rightarrow> presentation_state" where
  "setShowRawData b st = st\<lparr>showRawData := b\<rparr>"

text \<open>
  The React element tree a render returns. An element has a tag, a class name (empty when
  it has none) and children; an icon has its component's name and size. A child is an
  element, a string, a number, or one of the values React draws nothing for (\<open>null\<close>,
  \<open>undefined\<close>, \<open>false\<close>), here \<open>Blank\<close>. A button carries the handler its
  \<open>onClick\<close> runs.
\<close>

datatype control = SummaryButton | TableButton | TimelineButton | RawDataToggle

datatype vnode =
    Element string string "vnode list"
  | Fragment "vnode list"
  | Button string control "vnode list"
  | Icon string nat
  | TextNode jsstring
  | NumberNode real
  | Blank

definition onClick :: "control \<Rightarrow> presentation_state \<Rightarrow> presentation_state" where
  "onClick c st =
     (case c of
        SummaryButton \<Rightarrow> setViewMode ''summary'' st
      | TableButton \<Rightarrow> setViewMode ''table'' st
      | TimelineButton \<Rightarrow> setViewMode ''timeline'' st
      | RawDataToggle \<Rightarrow> setShowRawData (\<not> showRawData st) st)"

text \<open>A scalar as a child, and its truthiness (for \<open>x && ...\<close>).\<close>

definition scalar_child :: "scalar option \<Rightarrow> vnode" where
  "scalar_child v =
     (case v of
        None \<Rightarrow> Blank
      | Some JNull \<Rightarrow> Blank
      | Some (JBool b) \<Rightarrow> Blank
      | Some (JNum n) \<Rightarrow> NumberNode n
      | Some (JStr s) \<Rightarrow> TextNode s)"

definition truthy :: "scalar option \<Rightarrow> bool" where
  "truthy v =
     (case v of
        None \<Rightarrow> False
      | Some JNull \<Rightarrow> False
      | Some (JBool b) \<Rightarrow> b
      | Some (JNum n) \<Rightarrow> n \<noteq> 0
      | Some (JStr s) \<Rightarrow> s \<noteq> [])"

fun Array_join :: "jsstring list \<Rightarrow> jsstring \<Rightarrow> jsstring" where
  "Array_join [] sep = []"
| "Array_join [x] sep = x"
| "Array_join (x # y # ys) sep = x @ sep @ Array_join (y # ys) sep"

text \<open>\<open>.replace(/_/g, ' ').replace(/\b\w/g, l => l.toUpperCase())\<close>: \<open>\w\<close> is an ASCII
  letter, digit or underscore, and \<open>\b\w\<close> is such a character with none before it.\<close>

definition isWordChar :: "jschar \<Rightarrow> bool" where
  "isWordChar c =
     ((0x61 \<le> c \<and> c \<le> 0x7A) \<or> (0x41 \<le> c \<and> c \<le> 0x5A) \<or> (0x30 \<le> c \<and> c \<le> 0x39) \<or> c = 0x5F)"

definition upper_word_char :: "jschar \<Rightarrow> jschar" where
  "upper_word_char c = (if 0x61 \<le> c \<and> c \<le> 0x7A then c - 0x20 else c)"

fun capitalize_words :: "bool \<Rightarrow> jsstring \<Rightarrow> jsstring" where
  "capitalize_words prev [] = []"
| "capitalize_words prev (c # cs) =
     (if isWordChar c \<and> \<not> prev then upper_word_char c else c) # capitalize_words (isWordChar c) cs"

definition formatColumnName :: "jsstring \<Rightarrow> jsstring" where
  "formatColumnName col = capitalize_words False (map (\<lambda>c. if c = 0x5F then 0x20 else c) col)"

definition formatAggregationLabel :: "jsstring \<Rightarrow> jsstring" where
  "formatAggregationLabel k = capitalize_words False (map (\<lambda>c. if c = 0x5F then 0x20 else c) k)"

definition formatValue :: "platform \<Rightarrow> scalar \<Rightarrow> scalar" where
  "formatValue p v = (case v of JNum n \<Rightarrow> JStr (Number_toLocaleString p n) | _ \<Rightarrow> v)"

text \<open>
  What \<open>row[col]\<close> evaluates to: the row's own value when the row has the key; otherwise
  what \<open>Object.prototype\<close> has under that name; otherwise \<open>undefined\<close>. The members of
  \<open>Object.prototype\<close> are functions (and, under \<open>__proto__\<close>, the prototype object):
  neither \<open>null\<close> nor a string nor a number, and their \<open>toLocaleString()\<close> calls their
  \<open>toString()\<close>; the string it returns is all the formatter uses of them.
\<close>

datatype js_value = Undefined | Own scalar | Inherited jsstring

definition get_property :: "platform \<Rightarrow> row \<Rightarrow> jsstring \<Rightarrow> js_value" where
  "get_property p r k =
     (case map_of r k of
        Some v \<Rightarrow> Own v
      | None \<Rightarrow> (case Object_prototype p k of Some t \<Rightarrow> Inherited t | None \<Rightarrow> Undefined))"

text \<open>
  \<open>value.toLocaleString()\<close> and \<open>value.toString()\<close>: only a number has a locale form
  of its own, and on \<open>null\<close> and \<open>undefined\<close> the property access is a TypeError.
\<close>

datatype js_exception = TypeError

fun toLocaleString :: "platform \<Rightarrow> js_value \<Rightarrow> js_exception + jsstring" where
  "toLocaleString p (Own (JNum n)) = Inr (Number_toLocaleString p n)"
| "toLocaleString p (Own (JStr s)) = Inr s"
| "toLocaleString p (Own (JBool b)) = Inr (if b then js ''true'' else js ''false'')"
| "toLocaleString p (Own JNull) = Inl TypeError"
| "toLocaleString p (Inherited t) = Inr t"
| "toLocaleString p Undefined = Inl TypeError"

fun toString :: "platform \<Rightarrow> js_value \<Rightarrow> js_exception + jsstring" where
  "toString p (Own (JNum n)) = Inr (Number_toString p n)"
| "toString p (Own (JStr s)) = Inr s"
| "toString p (Own (JBool b)) = Inr (if b then js ''true'' else js ''false'')"
| "toString p (Own JNull) = Inl TypeError"
| "toString p (Inherited t) = Inr t"
| "toString p Undefined = Inl TypeError"

text \<open>\<open>new Date(value).toLocaleDateString()\<close>: a date whose time value is NaN prints as
  the string \<open>Invalid Date\<close>; nothing is thrown.\<close>

definition new_Date_toLocaleDateString :: "platform \<Rightarrow> jsstring \<Rightarrow> js_exception + jsstring" where
  "new_Date_toLocaleDateString p s =
     Inr (case Date_parse p s of
            None \<Rightarrow> js ''Invalid Date''
          | Some t \<Rightarrow> Date_toLocaleDateString p t)"

text \<open>\<open>typeof value === 'number'\<close> and \<open>typeof value === 'string'\<close>.\<close>

definition is_number :: "js_value \<Rightarrow> bool" where
  "is_number v = (case v of Own (JNum n) \<Rightarrow> True | _ \<Rightarrow> False)"

definition is_string :: "js_value \<Rightarrow> bool" where
  "is_string v = (case v of Own (JStr s) \<Rightarrow> True | _ \<Rightarrow> False)"

text \<open>The string a string value holds (read only under \<open>is_string\<close>).\<close>

definition string_of :: "js_value \<Rightarrow> jsstring" where
  "string_of v = (case v of Own (JStr s) \<Rightarrow> s | _ \<Rightarrow> [])"

text \<open>\<open>formatCellValue(value, column)\<close>. \<open>&&\<close> binds tighter than \<open>||\<close> in the third
  test, in JavaScript as here.\<close>

definition formatCellValue ::
  "platform \<Rightarrow> js_value \<Rightarrow> jsstring \<Rightarrow> js_exception + jsstring"
where
  "formatCellValue p v column =
     (if v = Own JNull \<or> v = Undefined then Inr (js ''-'')
      else if is_string v \<and> includes_str (string_of v) (js ''T'')
              \<and> includes_str (string_of v) (js ''Z'') then
        (case new_Date_toLocaleDateString p (string_of v) of
           Inr s \<Rightarrow> Inr s
         | Inl e \<Rightarrow> Inr (string_of v))
      else if is_number v \<and> includes_str column (js ''price'')
              \<or> includes_str column (js ''salary'') then
        (case toLocaleString p v of
           Inr s \<Rightarrow> Inr (js ''$'' @ s)
         | Inl e \<Rightarrow> Inl e)
      else if is_string v \<and> length (string_of v) > 50 then
        Inr (substring (string_of v) 0 50 @ js ''...'')
      else toString p v)"

definition getColumnClass :: "jsstring \<Rightarrow> string" where
  "getColumnClass column =
     (if includes_str column (js ''price'') \<or> includes_str column (js ''salary'')
         \<or> includes_str column (js ''amount'') then ''currency''
      else if includes_str column (js ''date'') \<or> includes_str column (js ''time'') then ''date''
      else if includes_str column (js ''id'') then ''id''
      else [])"

text \<open>A \<open>Set\<close> of strings keeps its elements in insertion order; adding one that is
  already there changes nothing.\<close>

definition Set_add :: "jsstring list \<Rightarrow> jsstring \<Rightarrow> jsstring list" where
  "Set_add allKeys k = (if k \<in> set allKeys then allKeys else allKeys @ [k])"

definition Object_keys :: "row \<Rightarrow> jsstring list" where
  "Object_keys r = map fst r"

definition getTableColumns :: "row list \<Rightarrow> jsstring list" where
  "getTableColumns rs =
     (if length rs = 0 then []
      else
        slice0
          (foldl (\<lambda>allKeys result.
                    foldl (\<lambda>allKeys k. if \<not> startsWith k (js ''_'') then Set_add allKeys k else allKeys)
                      allKeys (Object_keys result))
             [] rs)
          6)"

text \<open>Evaluating a list of children stops at the first one that throws.\<close>

fun sequence :: "('e + 'a) list \<Rightarrow> 'e + 'a list" where
  "sequence [] = Inr []"
| "sequence (x # xs) =
     (case x of
        Inl e \<Rightarrow> Inl e
      | Inr v \<Rightarrow> (case sequence xs of Inl e \<Rightarrow> Inl e | Inr vs \<Rightarrow> Inr (v # vs)))"

text \<open>In the JSX, \<open>x && <div/>\<close> is the element when \<open>x\<close> is truthy and \<open>x\<close> itself
  otherwise: an absent, \<open>null\<close> or \<open>false\<close> value draws nothing, a zero or an empty
  string stays as that child.\<close>

definition renderAggregations :: "platform \<Rightarrow> envelope \<Rightarrow> vnode" where
  "renderAggregations p d =
     (case aggregations d of
        None \<Rightarrow> Blank
      | Some aggs \<Rightarrow>
          Element ''div'' ''aggregations''
            (map (\<lambda>(source, aggs').
               Element ''div'' ''aggregation-source''
                 [Element ''h6'' []
                    [TextNode (String_toUpperCase p (take 1 source) @ drop 1 source)],
                  Element ''div'' ''agg-items''
                    (map (\<lambda>(k, v).
                       Element ''div'' ''agg-item''
                         [Element ''span'' ''agg-label'' [TextNode (formatAggregationLabel k)],
                          Element ''span'' ''agg-value''
                            [case v of
                               Buckets bs \<Rightarrow>
                                 Element ''div'' ''bucket-list''
                                   (map (\<lambda>b.
                                      Element ''div'' ''bucket-item''
                                        [Element ''span'' [] [scalar_child (Some (b_key b))],
                                         Element ''span'' ''bucket-count'' [NumberNode (b_count b)]])
                                    (slice0 bs 5))
                             | Scalar x \<Rightarrow> scalar_child (Some (formatValue p x))]])
                     aggs')])
             aggs))"

definition renderSummary :: "platform \<Rightarrow> envelope \<Rightarrow> vnode" where
  "renderSummary p d =
     Element ''div'' ''results-summary''
       [Element ''div'' ''summary-header''
          [Element ''h4'' [] [TextNode (js ''Results Summary'')],
           Element ''div'' ''summary-stats''
             [case total_results d of
                None \<Rightarrow> Blank
              | Some n \<Rightarrow>
                  Element ''div'' ''stat''
                    [Icon ''Hash'' 16,
                     Element ''span'' [] [NumberNode n, TextNode (js '' records'')]],
              case sources d of
                None \<Rightarrow> Blank
              | Some ss \<Rightarrow>
                  Element ''div'' ''stat''
                    [Icon ''Database'' 16,
                     Element ''span'' [] [TextNode (Array_join ss (js '', ''))]],
              let processing_time =
                    (case metadata d of None \<Rightarrow> None | Some m \<Rightarrow> map_of m (js ''processing_time''))
              in if truthy processing_time then
                   Element ''div'' ''stat''
                     [Icon ''Clock'' 16, Element ''span'' [] [TextNode (js ''Processed'')]]
                 else scalar_child processing_time]],
        case summary d of
          None \<Rightarrow> Blank
        | Some s \<Rightarrow>
            if truthy_string s then
              Element ''div'' ''summary-text'' [Element ''p'' [] [TextNode s]]
            else TextNode s,
        case aggregations d of
          None \<Rightarrow> Blank
        | Some aggs \<Rightarrow>
            if length aggs > 0 then
              Element ''div'' ''aggregations-summary''
                [Element ''h5'' [] [TextNode (js ''Key Metrics'')], renderAggregations p d]
            else Blank]"

text \<open>The table's JSX, for the rows shown, the columns chosen and the formatted cells.\<close>

definition table_markup ::
  "envelope \<Rightarrow> row list \<Rightarrow> jsstring list \<Rightarrow> jsstring list list \<Rightarrow> vnode"
where
  "table_markup d shown columns cells =
     Element ''div'' ''results-table-container''
       [Element ''div'' ''table-header''
          [Element ''h4'' [] [TextNode (js ''Detailed Results'')],
           Element ''span'' ''result-count''
             [TextNode (js ''Showing ''), NumberNode (real (length shown)),
              TextNode (js '' of ''),
              NumberNode (case total_results d of
                            None \<Rightarrow> real (length shown)
                          | Some n \<Rightarrow> if n \<noteq> 0 then n else real (length shown)),
              TextNode (js '' results'')]],
        Element ''div'' ''table-wrapper''
          [Element ''table'' ''results-table''
             [Element ''thead'' []
                [Element ''tr'' []
                   (map (\<lambda>col. Element ''th'' [] [TextNode (formatColumnName col)]) columns)],
              Element ''tbody'' []
                (map (\<lambda>row_cells.
                   Element ''tr'' []
                     (map (\<lambda>(col, cell). Element ''td'' (getColumnClass col) [TextNode cell])
                        (zip columns row_cells)))
                 cells)]]]"

text \<open>\<open>renderTable\<close>: its local \<open>results\<close> (the first ten rows) is \<open>shown\<close> here,
  and \<open>row[col]\<close> is \<open>get_property p row col\<close>.\<close>

definition renderTable :: "platform \<Rightarrow> envelope \<Rightarrow> js_exception + vnode" where
  "renderTable p d =
     (case results d of
        None \<Rightarrow> Inr (Element ''div'' ''no-results'' [TextNode (js ''No detailed results to display'')])
      | Some rs \<Rightarrow>
          if length rs = 0 then
            Inr (Element ''div'' ''no-results'' [TextNode (js ''No detailed results to display'')])
          else
            let shown = slice0 rs 10;
                columns = getTableColumns shown
            in (case sequence
                       (map (\<lambda>row.
                          sequence (map (\<lambda>col. formatCellValue p (get_property p row col) col) columns))
                        shown) of
                  Inl e \<Rightarrow> Inl e
                | Inr cells \<Rightarrow> Inr (table_markup d shown columns cells)))"

text \<open>The JSX of one sample and of one timeline entry (the bodies of the two \<open>map\<close>
  callbacks in \<open>renderTimeline\<close>).\<close>

definition timeline_sample :: "platform \<Rightarrow> json \<Rightarrow> vnode" where
  "timeline_sample p sample =
     Element ''div'' ''timeline-sample''
       [TextNode (substring (JSON_stringify p sample) 0 100), TextNode (js ''...'')]"

definition timeline_entry :: "platform \<Rightarrow> timeline_item \<Rightarrow> vnode" where
  "timeline_entry p item =
     Element ''div'' ''timeline-item''
       [Element ''div'' ''timeline-date'' [TextNode (t_date item)],
        Element ''div'' ''timeline-content''
          [Element ''div'' ''timeline-count''
             [NumberNode (t_count item), TextNode (js '' items'')],
           case t_items item of
             None \<Rightarrow> Blank
           | Some its \<Rightarrow>
               if length its > 0 then
                 Element ''div'' ''timeline-samples'' (map (timeline_sample p) (slice0 its 2))
               else Blank]]"

definition renderTimeline :: "platform \<Rightarrow> envelope \<Rightarrow> vnode" where
  "renderTimeline p d =
     (case timeline d of
        None \<Rightarrow> Blank
      | Some tln \<Rightarrow>
          if length tln = 0 then Blank
          else
            Element ''div'' ''timeline-view''
              [Element ''h4'' [] [TextNode (js ''Timeline Analysis'')],
               Element ''div'' ''timeline'' (map (timeline_entry p) tln)])"

definition renderRawData :: "platform \<Rightarrow> envelope \<Rightarrow> vnode" where
  "renderRawData p d =
     Element ''div'' ''raw-data'' [Element ''pre'' [] [TextNode (JSON_stringify_indent2 p d)]]"

text \<open>\<open>Object.keys(data)\<close>: the keys the envelope has.\<close>

definition envelope_keys :: "envelope \<Rightarrow> string list" where
  "envelope_keys d =
     (if total_results d = None then [] else [''total_results''])
     @ (if sources d = None then [] else [''sources''])
     @ (if summary d = None then [] else [''summary''])
     @ (if aggregations d = None then [] else [''aggregations''])
     @ (if results d = None then [] else [''results''])
     @ (if timeline d = None then [] else [''timeline''])
     @ (if metadata d = None then [] else [''metadata''])"

definition results_header :: "envelope \<Rightarrow> presentation_state \<Rightarrow> vnode" where
  "results_header d st =
     Element ''div'' ''results-header''
       [Element ''div'' ''view-controls''
          [Button (if viewMode st = ''summary'' then ''active'' else []) SummaryButton
             [Icon ''BarChart3'' 16, TextNode (js ''Summary'')],
           case results d of
             None \<Rightarrow> Blank
           | Some rs \<Rightarrow>
               if length rs > 0 then
                 Button (if viewMode st = ''table'' then ''active'' else []) TableButton
                   [Icon ''Table'' 16, TextNode (js ''Table'')]
               else Blank,
           case timeline d of
             None \<Rightarrow> Blank
           | Some tln \<Rightarrow>
               if length tln > 0 then
                 Button (if viewMode st = ''timeline'' then ''active'' else []) TimelineButton
                   [Icon ''TrendingUp'' 16, TextNode (js ''Timeline'')]
               else Blank],
        Element ''div'' ''data-controls''
          [Button ''raw-data-toggle'' RawDataToggle
             [if showRawData st then Icon ''EyeOff'' 16 else Icon ''Eye'' 16,
              TextNode (js ''Raw Data'')]]]"

definition results_content ::
  "platform \<Rightarrow> envelope \<Rightarrow> presentation_state \<Rightarrow> js_exception + vnode"
where
  "results_content p d st =
     (if showRawData st then Inr (renderRawData p d)
      else
        case (if viewMode st = ''table'' then renderTable p d else Inr Blank) of
          Inl e \<Rightarrow> Inl e
        | Inr t \<Rightarrow>
            Inr (Fragment
                   [if viewMode st = ''summary'' then renderSummary p d else Blank,
                    t,
                    if viewMode st = ''timeline'' then renderTimeline p d else Blank]))"

text \<open>The component: what one render returns for the prop \<open>data\<close> (\<open>None\<close> when the
  message has none) in the state \<open>st\<close>. \<open>Blank\<close> is the \<open>null\<close> it returns to draw
  nothing.\<close>

definition ResultsDisplay ::
  "platform \<Rightarrow> envelope option \<Rightarrow> presentation_state \<Rightarrow> js_exception + vnode"
where
  "ResultsDisplay p data' st =
     (case data' of
        None \<Rightarrow> Inr Blank
      | Some d \<Rightarrow>
          if length (envelope_keys d) = 0 then Inr Blank
          else
            (case results_content p d st of
               Inl e \<Rightarrow> Inl e
             | Inr c \<Rightarrow>
                 Inr (Element ''div'' ''results-display''
                        [results_header d st, Element ''div'' ''results-content'' [c]])))"

text \<open>The handlers a rendered tree offers: the \<open>onClick\<close> of every button in it.\<close>

fun buttons :: "vnode \<Rightarrow> control list" where
  "buttons (Element t c cs) = concat (map buttons cs)"
| "buttons (Fragment cs) = concat (map buttons cs)"
| "buttons (Button c k cs) = k # concat (map buttons cs)"
| "buttons (Icon n s) = []"
| "buttons (TextNode s) = []"
| "buttons (NumberNode n) = []"
| "buttons Blank = []"

text \<open>A click can only land on a button that the current render shows.\<close>

definition click ::
  "platform \<Rightarrow> envelope option \<Rightarrow> presentation_state \<Rightarrow> control \<Rightarrow> presentation_state option"
where
  "click p data' st c =
     (case ResultsDisplay p data' st of
        Inl e \<Rightarrow> None
      | Inr v \<Rightarrow> if c \<in> set (buttons v) then Some (onClick c st) else None)"

text \<open>The text a subtree shows: its strings in order (numbers and icons left out).\<close>

fun textContent :: "vnode \<Rightarrow> jsstring" where
  "textContent (Element t c cs) = concat (map textContent cs)"
| "textContent (Fragment cs) = concat (map textContent cs)"
| "textContent (Button c k cs) = concat (map textContent cs)"
| "textContent (Icon n s) = []"
| "textContent (TextNode s) = s"
| "textContent (NumberNode n) = []"
| "textContent Blank = []"

text \<open>All elements of a tree with a given class name or tag, in document order.\<close>

fun by_class :: "string \<Rightarrow> vnode \<Rightarrow> vnode list" where
  "by_class k (Element t c cs) =
     (if c = k then [Element t c cs] else []) @ concat (map (by_class k) cs)"
| "by_class k (Fragment cs) = concat (map (by_class k) cs)"
| "by_class k (Button c h cs) = concat (map (by_class k) cs)"
| "by_class k (Icon n s) = []"
| "by_class k (TextNode s) = []"
| "by_class k (NumberNode n) = []"
| "by_class k Blank = []"

fun by_tag :: "string \<Rightarrow> vnode \<Rightarrow> vnode list" where
  "by_tag k (Element t c cs) =
     (if t = k then [Element t c cs] else []) @ concat (map (by_tag k) cs)"
| "by_tag k (Fragment cs) = concat (map (by_tag k) cs)"
| "by_tag k (Button c h cs) = concat (map (by_tag k) cs)"
| "by_tag k (Icon n s) = []"
| "by_tag k (TextNode s) = []"
| "by_tag k (NumberNode n) = []"
| "by_tag k Blank = []"

text \<open>The rows of a rendered table's body.\<close>

definition table_rows :: "vnode \<Rightarrow> vnode list" where
  "table_rows v = concat (map (by_tag ''tr'') (by_tag ''tbody'' v))"

section \<open>The specification's own wording\<close>

text \<open>The distinct elements of a list, each at its first occurrence.\<close>

fun first_seen :: "'a list \<Rightarrow> 'a list" where
  "first_seen [] = []"
| "first_seen (x # xs) = x # first_seen (removeAll x xs)"

text \<open>The column policy as the specification words it: the field names of the rows shown,
  in row order, without those that begin with the private-field marker, each once at its
  first occurrence, and of these the first six.\<close>

definition spec_columns :: "row list \<Rightarrow> jsstring list" where
  "spec_columns shown =
     take 6 (first_seen (filter (\<lambda>k. \<not> startsWith k (js ''_'')) (concat (map Object_keys shown))))"

text \<open>The eligibility rules of the specification: summary and raw always, table on a
  non-empty \<open>results\<close>, timeline on a non-empty \<open>timeline\<close>.\<close>

definition eligible :: "envelope \<Rightarrow> string \<Rightarrow> bool" where
  "eligible d m =
     (m = ''summary'' \<or> m = ''raw''
      \<or> (m = ''table'' \<and> (case results d of None \<Rightarrow> False | Some rs \<Rightarrow> rs \<noteq> []))
      \<or> (m = ''timeline'' \<and> (case timeline d of None \<Rightarrow> False | Some tln \<Rightarrow> tln \<noteq> [])))"

section \<open>Values to evaluate on\<close>

text \<open>A platform whose printers are fixed arbitrarily, on which no string parses as a date,
  and whose \<open>Object.prototype\<close> has its standard members; and an envelope that has no
  key at all.\<close>

definition sample_platform :: platform where
  "sample_platform =
     \<lparr>Number_toString = (\<lambda>n. js ''n''),
      Number_toLocaleString = (\<lambda>n. js ''n,nnn''),
      Date_parse = (\<lambda>s. None),
      Date_toLocaleDateString = (\<lambda>t. js ''1/1/1970''),
      JSON_stringify = (\<lambda>v. js ''{}''),
      JSON_stringify_indent2 = (\<lambda>d. js ''{}''),
      String_toUpperCase = (\<lambda>s. s),
      Object_prototype =
        map_of
          [(js ''constructor'', js ''function Object() { [native code] }''),
           (js ''hasOwnProperty'', js ''function hasOwnProperty() { [native code] }''),
           (js ''isPrototypeOf'', js ''function isPrototypeOf() { [native code] }''),
           (js ''propertyIsEnumerable'', js ''function propertyIsEnumerable() { [native code] }''),
           (js ''toLocaleString'', js ''function toLocaleString() { [native code] }''),
           (js ''toString'', js ''function toString() { [native code] }''),
           (js ''valueOf'', js ''function valueOf() { [native code] }''),
           (js ''__defineGetter__'', js ''function __defineGetter__() { [native code] }''),
           (js ''__defineSetter__'', js ''function __defineSetter__() { [native code] }''),
           (js ''__lookupGetter__'', js ''function __lookupGetter__() { [native code] }''),
           (js ''__lookupSetter__'', js ''function __lookupSetter__() { [native code] }''),
           (js ''__proto__'', js ''[object Object]'')]\<rparr>"

definition empty_envelope :: envelope where
  "empty_envelope =
     \<lparr>total_results = None, sources = None, summary = None, aggregations = None,
      results = None, timeline = None, metadata = None\<rparr>"

definition sample_rows :: "row list" where
  "sample_rows = replicate 11
     [(js ''b'', JNum 1), (js ''a'', JNull), (js ''_h'', JNull), (js ''c'', JNull),
      (js ''d'', JNull), (js ''e'', JNull), (js ''f'', JNull), (js ''g'', JNull)]"

text \<open>Two rows of which the second lacks the key \<open>constructor\<close> of the first.\<close>

definition inherited_rows :: "row list" where
  "inherited_rows = [[(js ''constructor'', JStr (js ''x''))], [(js ''a'', JStr (js ''y''))]]"

definition sample_timeline :: "timeline_item list" where
  "sample_timeline =
     [\<lparr>t_date = js ''2024-01-01'', t_count = 3, t_items = Some [Null, Obj [], Arr []]\<rparr>,
      \<lparr>t_date = js ''2024-01-02'', t_count = 0, t_items = None\<rparr>]"

text \<open>What axios rejects with when the 30 second timeout passes, and on a 500 answer.\<close>

definition timeout_error :: axios_error where
  "timeout_error =
     \<lparr>code = Some (js ''ECONNABORTED''), response_status = None,
      message = js ''timeout of 30000ms exceeded''\<rparr>"

definition status_500_error :: axios_error where
  "status_500_error =
     \<lparr>code = Some (js ''ERR_BAD_RESPONSE''), response_status = Some 500,
      message = js ''Request failed with status code 500''\<rparr>"

definition status_503_error :: axios_error where
  "status_503_error =
     \<lparr>code = Some (js ''ERR_BAD_RESPONSE''), response_status = Some 503,
      message = js ''Request failed with status code 503''\<rparr>"

definition typing_state :: "jsstring \<Rightarrow> bool \<Rightarrow> chat_state" where
  "typing_state text loading =
     \<lparr>messages = [], inputValue = text, isLoading = loading, console = []\<rparr>"

section \<open>Evaluation and list lemmas\<close>

lemma js_simps: "js [] = []" "js (c # cs) = of_char c # js cs"
  by (simp_all add: js_def)

lemma dropWhile_all_iff: "(\<forall>x\<in>set (dropWhile P xs). P x) \<longleftrightarrow> (\<forall>x\<in>set xs. P x)"
proof
  assume a: "\<forall>x\<in>set (dropWhile P xs). P x"
  have "dropWhile P xs = []"
  proof (rule ccontr)
    assume n: "dropWhile P xs \<noteq> []"
    then have "\<not> P (hd (dropWhile P xs))" by (rule hd_dropWhile)
    moreover have "hd (dropWhile P xs) \<in> set (dropWhile P xs)" using n by simp
    ultimately show False using a by blast
  qed
  then show "\<forall>x\<in>set xs. P x" by (simp only: dropWhile_eq_Nil_conv)
next
  assume "\<forall>x\<in>set xs. P x"
  then show "\<forall>x\<in>set (dropWhile P xs). P x" by (blast dest: set_dropWhileD)
qed

lemma trim_empty_iff: "trim s = [] \<longleftrightarrow> (\<forall>c\<in>set s. isWhiteSpace c)"
  by (simp add: trim_def dropWhile_eq_Nil_conv dropWhile_all_iff)

lemma concat_map_Nil: "concat (map (\<lambda>x. []) xs) = []"
  by (induction xs) simp_all

lemma substring_0: "substring s 0 n = take n s"
  by (simp add: substring_def Let_def min_def)

section \<open>The conversation\<close>

lemma settle_failure:
  "handleSendMessage_settle now (Inl e) st =
     st\<lparr>messages := messages st @ [errorMessage now], console := console st @ [e],
        isLoading := False\<rparr>"
  by (simp add: handleSendMessage_settle_def)

lemma handleSendMessage_accepted:
  "handleSendMessage_start now st = (st1, Some q) \<Longrightarrow>
     handleSendMessage post now now' st =
       handleSendMessage_settle now' (sendMessage post (req_message q) (conversation_id q)) st1"
  by (simp add: handleSendMessage_def)

lemma sendMessage_failure:
  "post q = Inl err \<Longrightarrow>
     sendMessage post (req_message q) (conversation_id q) = Inl (responseInterceptor_onRejected err)"
  by (cases q) (simp add: sendMessage_def apiClient_def)

text \<open>
  C1. Whatever the gateway call throws, the \<open>catch\<close> appends exactly one message: from the
  bot, flagged as an error, with the fixed apology as its text and neither an envelope nor a
  query analysis; the loading flag is cleared and the input left alone. The appended message
  is the same for every error (the error goes to the console only). For a whole accepted
  call whose request fails at the transport with any axios error, a timeout included, the
  log gains the user's message and then that one message.
\<close>

theorem gateway_failure_appends_apology:
  "(let st' = handleSendMessage_settle now (Inl e) st; m = last (messages st')
    in messages st' = messages st @ [m]
       \<and> m_type m = bot \<and> error m = Some True
       \<and> content m = js ''Sorry, I encountered an error processing your request. Please try again.''
       \<and> data m = None \<and> queryInfo m = None
       \<and> isLoading st' = False \<and> inputValue st' = inputValue st
       \<and> console st' = console st @ [e]
       \<and> messages (handleSendMessage_settle now (Inl e') st) = messages st')
   \<and> (handleSendMessage_start now0 st0 = (st1, Some q) \<and> post q = Inl err \<longrightarrow>
        messages (handleSendMessage post now0 now st0)
          = messages st0 @ [userMessage now0 (inputValue st0), errorMessage now]
        \<and> isLoading (handleSendMessage post now0 now st0) = False)"
proof -
  have "handleSendMessage_start now0 st0 = (st1, Some q) \<Longrightarrow>
          messages st1 = messages st0 @ [userMessage now0 (inputValue st0)]"
    by (auto simp: handleSendMessage_start_def split: if_splits)
  then show ?thesis
    by (auto simp: Let_def settle_failure errorMessage_def handleSendMessage_accepted
        sendMessage_failure)
qed

theorem gateway_failure_appends_apology_witness:
  "messages (handleSendMessage (\<lambda>q. Inl timeout_error) 1000 31000 (typing_state (js ''hi'') False))
     = [userMessage 1000 (js ''hi''), errorMessage 31000]
   \<and> isLoading (handleSendMessage (\<lambda>q. Inl timeout_error) 1000 31000 (typing_state (js ''hi'') False))
     = False"
proof -
  let ?st0 = "typing_state (js ''hi'') False"
  let ?st1 = "?st0\<lparr>messages := [userMessage 1000 (js ''hi'')], inputValue := [], isLoading := True\<rparr>"
  let ?q = "\<lparr>req_message = js ''hi'', conversation_id = conversationId\<rparr>"
  have "handleSendMessage_start 1000 ?st0 = (?st1, Some ?q)"
    by (simp add: handleSendMessage_start_def typing_state_def truthy_string_def trim_def
        js_simps isWhiteSpace_def)
  then show ?thesis
    using gateway_failure_appends_apology
      [of 31000 "NewError []" ?st0 "NewError []" 1000 ?st0 ?st1 ?q
          "\<lambda>q. Inl timeout_error" timeout_error]
    by (simp add: typing_state_def)
qed

text \<open>
  C2. When the input is empty or holds only white space, or when the loading flag is set,
  \<open>handleSendMessage\<close> returns at its guard: the state (message log, input, loading
  flag) is what it was and no request is issued, so nothing is left to be sent later.
\<close>

theorem rejected_submit_is_noop:
  assumes "(\<forall>c\<in>set (inputValue st). isWhiteSpace c) \<or> isLoading st"
  shows "handleSendMessage_start now st = (st, None)
       \<and> handleSendMessage post now now' st = st"
  using assms
  by (auto simp: handleSendMessage_start_def handleSendMessage_def truthy_string_def
      trim_empty_iff)

theorem rejected_submit_is_noop_witness:
  "handleSendMessage_start 1000 (typing_state (js ''  '') False)
     = (typing_state (js ''  '') False, None)
   \<and> handleSendMessage_start 1000 (typing_state (js ''hi'') True)
     = (typing_state (js ''hi'') True, None)"
proof -
  have a: "(\<forall>c\<in>set (inputValue (typing_state (js ''  '') False)). isWhiteSpace c)
           \<or> isLoading (typing_state (js ''  '') False)"
    by (simp add: typing_state_def js_simps isWhiteSpace_def)
  have b: "(\<forall>c\<in>set (inputValue (typing_state (js ''hi'') True)). isWhiteSpace c)
           \<or> isLoading (typing_state (js ''hi'') True)"
    by (simp add: typing_state_def)
  show ?thesis
    using rejected_submit_is_noop [OF a, of 1000 "\<lambda>q. Inl timeout_error" 1000]
      rejected_submit_is_noop [OF b, of 1000 "\<lambda>q. Inl timeout_error" 1000]
    by simp
qed

section \<open>The gateway client\<close>

text \<open>
  C6, as the code has it. Every method of the service reports a transport failure as what
  the one response interceptor throws for it. The interceptor throws its connection message
  when the error code is \<open>ECONNREFUSED\<close>; otherwise its server-error message when the
  status is exactly 500; otherwise its not-found message when the status is exactly 404;
  and otherwise, for every other status (the other 5xx statuses among them) and for a
  failure with no response at all, the error it was given, unchanged.
\<close>

theorem interceptor_taxonomy:
  assumes "post \<lparr>req_message = msg, conversation_id = cid\<rparr> = Inl e" and "get () = Inl e"
  shows "sendMessage post msg cid = Inl (responseInterceptor_onRejected e)
       \<and> getHealth get = Inl (responseInterceptor_onRejected e)
       \<and> getElasticsearchSchema get = Inl (responseInterceptor_onRejected e)
       \<and> getPostgreSQLSchema get = Inl (responseInterceptor_onRejected e)
       \<and> (code e = Some (js ''ECONNREFUSED'') \<longrightarrow>
            responseInterceptor_onRejected e =
              NewError (js ''Unable to connect to the server. Please make sure the backend is running.''))
       \<and> (code e \<noteq> Some (js ''ECONNREFUSED'') \<and> response_status e = Some 500 \<longrightarrow>
            responseInterceptor_onRejected e = NewError (js ''Server error occurred. Please try again.''))
       \<and> (code e \<noteq> Some (js ''ECONNREFUSED'') \<and> response_status e = Some 404 \<longrightarrow>
            responseInterceptor_onRejected e = NewError (js ''API endpoint not found.''))
       \<and> (code e \<noteq> Some (js ''ECONNREFUSED'') \<and> response_status e \<noteq> Some 500
            \<and> response_status e \<noteq> Some 404 \<longrightarrow>
            responseInterceptor_onRejected e = Original e)"
  using assms
  by (simp add: sendMessage_def getHealth_def getElasticsearchSchema_def getPostgreSQLSchema_def
      apiClient_def responseInterceptor_onRejected_def)

theorem interceptor_taxonomy_witness:
  "sendMessage (\<lambda>q. Inl status_500_error) (js ''hi'') conversationId
     = Inl (NewError (js ''Server error occurred. Please try again.''))
   \<and> getHealth (\<lambda>u. Inl status_500_error :: axios_error + unit)
     = Inl (NewError (js ''Server error occurred. Please try again.''))"
proof -
  have c: "code status_500_error \<noteq> Some (js ''ECONNREFUSED'')"
    and s: "response_status status_500_error = Some 500"
    by (simp_all add: status_500_error_def js_simps)
  show ?thesis
    using c s
      interceptor_taxonomy
        [of "\<lambda>q. Inl status_500_error" "js ''hi''" conversationId status_500_error
            "\<lambda>u. Inl status_500_error :: axios_error + unit"]
    by simp
qed

text \<open>With the whole 5xx range in place of 500 the statement fails, on a 503: it is not
  turned into the server-error message but rethrown as it came.\<close>

theorem status_503_counterexample:
  "responseInterceptor_onRejected status_503_error = Original status_503_error
   \<and> responseInterceptor_onRejected status_503_error
       \<noteq> NewError (js ''Server error occurred. Please try again.'')"
  by (simp add: responseInterceptor_onRejected_def status_503_error_def js_simps)

section \<open>The presenter: columns and cells\<close>

lemma removeAll_filter: "removeAll k (filter P xs) = filter (\<lambda>x. P x \<and> x \<noteq> k) xs"
  by (induction xs) auto

lemma inner_fold:
  "foldl (\<lambda>allKeys k. if keep k then Set_add allKeys k else allKeys) acc ks =
     acc @ first_seen (filter (\<lambda>k. keep k \<and> k \<notin> set acc) ks)"
proof (induction ks arbitrary: acc)
  case Nil
  then show ?case by simp
next
  case (Cons k ks)
  show ?case
  proof (cases "keep k \<and> k \<notin> set acc")
    case True
    have "(\<lambda>x. keep x \<and> x \<notin> set (acc @ [k])) = (\<lambda>x. (keep x \<and> x \<notin> set acc) \<and> x \<noteq> k)"
      by auto
    with True show ?thesis
      by (simp add: Set_add_def Cons.IH removeAll_filter)
  next
    case False
    then show ?thesis
      by (auto simp: Set_add_def Cons.IH)
  qed
qed

lemma foldl_rows: "foldl (\<lambda>acc r. foldl f acc (g r)) acc rs = foldl f acc (concat (map g rs))"
  by (induction rs arbitrary: acc) simp_all

lemma getTableColumns_spec: "getTableColumns rs = spec_columns rs"
proof -
  let ?f = "\<lambda>allKeys k. if \<not> startsWith k (js ''_'') then Set_add allKeys k else allKeys"
  have "foldl (\<lambda>allKeys result. foldl ?f allKeys (Object_keys result)) [] rs
          = foldl ?f [] (concat (map Object_keys rs))"
    by (rule foldl_rows)
  also have "\<dots> = first_seen (filter (\<lambda>k. \<not> startsWith k (js ''_'')) (concat (map Object_keys rs)))"
    by (simp only: inner_fold) simp
  finally have eq: "foldl (\<lambda>allKeys result. foldl ?f allKeys (Object_keys result)) [] rs
          = first_seen (filter (\<lambda>k. \<not> startsWith k (js ''_'')) (concat (map Object_keys rs)))" .
  show ?thesis
    unfolding getTableColumns_def spec_columns_def slice0_def eq by (cases rs) simp_all
qed

lemma first_seen_set: "set (first_seen xs) = set xs"
  by (induction xs rule: first_seen.induct) auto

lemma first_seen_distinct: "distinct (first_seen xs)"
  by (induction xs rule: first_seen.induct) (auto simp: first_seen_set)

lemma spec_columns_names:
  "set (spec_columns shown)
     \<subseteq> {k \<in> (\<Union>r\<in>set shown. set (Object_keys r)). \<not> startsWith k (js ''_'')}"
  "card {k \<in> (\<Union>r\<in>set shown. set (Object_keys r)). \<not> startsWith k (js ''_'')} \<le> 6
     \<Longrightarrow> set (spec_columns shown)
           = {k \<in> (\<Union>r\<in>set shown. set (Object_keys r)). \<not> startsWith k (js ''_'')}"
proof -
  let ?F = "filter (\<lambda>k. \<not> startsWith k (js ''_'')) (concat (map Object_keys shown))"
  let ?U = "{k \<in> (\<Union>r\<in>set shown. set (Object_keys r)). \<not> startsWith k (js ''_'')}"
  have u: "set (first_seen ?F) = ?U"
    by (auto simp: first_seen_set)
  have "set (take 6 (first_seen ?F)) \<subseteq> set (first_seen ?F)"
    by (rule set_take_subset)
  then show "set (spec_columns shown) \<subseteq> ?U"
    unfolding spec_columns_def u .
  assume "card ?U \<le> 6"
  moreover have "card (set (first_seen ?F)) = length (first_seen ?F)"
    by (rule distinct_card) (rule first_seen_distinct)
  ultimately have "length (first_seen ?F) \<le> 6"
    unfolding u by simp
  then have "take 6 (first_seen ?F) = first_seen ?F" by simp
  then show "set (spec_columns shown) = ?U"
    unfolding spec_columns_def using u by simp
qed

lemma formatCellValue_Inr: "\<exists>s. formatCellValue p v c = Inr s"
proof (cases v)
  case Undefined
  then show ?thesis by (simp add: formatCellValue_def)
next
  case (Own x)
  then show ?thesis
    by (cases x)
       (auto simp: formatCellValue_def is_string_def is_number_def new_Date_toLocaleDateString_def)
next
  case (Inherited t)
  then show ?thesis
    by (auto simp: formatCellValue_def is_string_def is_number_def)
qed

lemma sequence_map_Inr: "sequence (map Inr ys) = Inr ys"
  by (induction ys) simp_all

lemma sequence_InrD: "sequence xs = Inr ys \<Longrightarrow> xs = map Inr ys"
  by (induction xs arbitrary: ys) (auto split: sum.splits)

lemma sequence_total:
  "(\<And>x. x \<in> set xs \<Longrightarrow> \<exists>y. x = Inr y) \<Longrightarrow> \<exists>ys. sequence xs = Inr ys"
proof (induction xs)
  case Nil
  then show ?case by simp
next
  case (Cons x xs)
  then obtain y ys where "x = Inr y" "sequence xs = Inr ys" by (meson list.set_intros)
  then show ?case by simp
qed

lemma by_tag_th: "by_tag ''th'' (table_markup d shown cols cells) =
    map (\<lambda>col. Element ''th'' [] [TextNode (formatColumnName col)]) cols"
  by (simp add: table_markup_def comp_def case_prod_unfold concat_map_Nil)

lemma table_rows_markup: "table_rows (table_markup d shown cols cells) =
    map (\<lambda>row_cells. Element ''tr'' []
           (map (\<lambda>(col, cell). Element ''td'' (getColumnClass col) [TextNode cell]) (zip cols row_cells))) cells"
  by (simp add: table_rows_def table_markup_def comp_def case_prod_unfold concat_map_Nil)

lemma by_tag_td: "length row_cells = length cols \<Longrightarrow> map textContent (by_tag ''td'' (Element ''tr'' []
           (map (\<lambda>(col, cell). Element ''td'' (getColumnClass col) [TextNode cell]) (zip cols row_cells))))
       = row_cells"
  by (simp add: comp_def case_prod_unfold concat_map_Nil map_snd_zip_take)

lemma row_cells_total: "\<exists>ys. sequence (map (\<lambda>col. formatCellValue p (get_property p r col) col) cols) = Inr ys"
  by (rule sequence_total) (auto simp: formatCellValue_Inr)

lemma renderTable_markup:
  assumes "results d = Some rs" "rs \<noteq> []"
  shows "\<exists>cells. renderTable p d = Inr (table_markup d (take 10 rs) (spec_columns (take 10 rs)) cells)
           \<and> map Inr cells = map (\<lambda>r. sequence (map (\<lambda>col. formatCellValue p (get_property p r col) col) (spec_columns (take 10 rs)))) (take 10 rs)"
proof -
  let ?cols = "spec_columns (take 10 rs)"
  let ?g = "\<lambda>r. sequence (map (\<lambda>col. formatCellValue p (get_property p r col) col) ?cols)"
  have "\<exists>cells. sequence (map ?g (take 10 rs)) = Inr cells"
    by (rule sequence_total) (auto simp: row_cells_total)
  then obtain cells where c: "sequence (map ?g (take 10 rs)) = Inr cells" ..
  then have "map ?g (take 10 rs) = map Inr cells" by (rule sequence_InrD)
  moreover have "renderTable p d = Inr (table_markup d (take 10 rs) ?cols cells)"
    using assms c by (simp add: renderTable_def slice0_def getTableColumns_spec Let_def)
  ultimately show ?thesis by auto
qed

lemma renderTable_total: "\<exists>v. renderTable p d = Inr v"
proof (cases "results d")
  case None
  then show ?thesis by (simp add: renderTable_def)
next
  case (Some rs)
  show ?thesis
  proof (cases "rs = []")
    case True
    with Some show ?thesis by (simp add: renderTable_def)
  next
    case False
    with Some renderTable_markup[of d rs p] show ?thesis by blast
  qed
qed

lemma sample_rows_shown: "length (take 10 sample_rows) = 10"
  by (simp add: sample_rows_def)

lemma sample_rows_columns:
  "spec_columns (take 10 sample_rows) = map js [''b'', ''a'', ''c'', ''d'', ''e'', ''f'']"
  by code_simp

lemma inherited_rows_columns:
  "spec_columns (take 10 inherited_rows) = [js ''constructor'', js ''a'']"
  by code_simp

lemma inherited_rows_cells:
  "map (\<lambda>col. formatCellValue sample_platform
                 (get_property sample_platform (inherited_rows ! 1) col) col)
       [js ''constructor'', js ''a'']
     = map Inr [js ''function Object() { [native code] }'', js ''y'']"
  by code_simp

lemma sample_rows_headers:
  "map formatColumnName (map js [''b'', ''a'', ''c'', ''d'', ''e'', ''f''])
     = map js [''B'', ''A'', ''C'', ''D'', ''E'', ''F'']"
  by code_simp

text \<open>
  C3. The table view never throws. With \<open>rs\<close> the \<open>results\<close> of the envelope (none when
  the key is absent), it shows the first ten rows of \<open>rs\<close> and no others, one body row
  each; its header cells are, in order, the columns the specification describes: the field
  names of the rows shown, in row order, without the names that begin with an underscore,
  each once at its first occurrence, and of these the first six. So there are never more
  than ten body rows nor more than six columns, no column is repeated, every column is a
  field name of a row shown that does not begin with an underscore, all such names are
  columns when there are at most six of them, and the cells of the i-th body row are the
  formatted values of \<open>row[col]\<close> for the i-th row under those columns (the row's own
  value, or what the row inherits from \<open>Object.prototype\<close> under that name).
\<close>

theorem table_view_rows_and_columns:
  "\<exists>v. renderTable p d = Inr v \<and>
     (let rs = (case results d of None \<Rightarrow> [] | Some rs \<Rightarrow> rs);
          shown = take 10 rs;
          cols = spec_columns shown
      in length shown \<le> 10 \<and> length cols \<le> 6 \<and> distinct cols
         \<and> set cols
               \<subseteq> {k \<in> (\<Union>r\<in>set shown. set (Object_keys r)). \<not> startsWith k (js ''_'')}
         \<and> (card {k \<in> (\<Union>r\<in>set shown. set (Object_keys r)). \<not> startsWith k (js ''_'')} \<le> 6
              \<longrightarrow> set cols
                    = {k \<in> (\<Union>r\<in>set shown. set (Object_keys r)). \<not> startsWith k (js ''_'')})
         \<and> by_tag ''th'' v = map (\<lambda>col. Element ''th'' [] [TextNode (formatColumnName col)]) cols
         \<and> length (table_rows v) = length shown
         \<and> (\<forall>i<length shown.
               map Inr (map textContent (by_tag ''td'' (table_rows v ! i)))
                 = map (\<lambda>col. formatCellValue p (get_property p (rs ! i) col) col) cols))"
proof (cases "case results d of None \<Rightarrow> [] | Some rs \<Rightarrow> rs")
  case Nil
  then have "renderTable p d = Inr (Element ''div'' ''no-results'' [TextNode (js ''No detailed results to display'')])"
    by (auto simp: renderTable_def split: option.splits)
  with Nil show ?thesis
    by (simp add: spec_columns_def table_rows_def)
next
  case (Cons r rs')
  then have res: "results d = Some (r # rs')" by (auto split: option.splits)
  let ?rs = "r # rs'"
  let ?shown = "take 10 ?rs"
  let ?cols = "spec_columns ?shown"
  from renderTable_markup[OF res, of p] obtain cells where
    rt: "renderTable p d = Inr (table_markup d ?shown ?cols cells)"
    and cells: "map Inr cells = map (\<lambda>r. sequence (map (\<lambda>col. formatCellValue p (get_property p r col) col) ?cols)) ?shown"
    by blast
  let ?v = "table_markup d ?shown ?cols cells"
  have len: "length cells = length ?shown"
    using arg_cong[OF cells, of length] by (simp only: length_map)
  have row: "map (\<lambda>col. formatCellValue p (get_property p (?rs ! i) col) col) ?cols = map Inr (cells ! i)"
    if "i < length ?shown" for i
  proof -
    have "map Inr cells ! i = Inr (cells ! i)"
      using that len by (simp only: nth_map)
    moreover have "map (\<lambda>r. sequence (map (\<lambda>col. formatCellValue p (get_property p r col) col) ?cols)) ?shown ! i
        = sequence (map (\<lambda>col. formatCellValue p (get_property p (?shown ! i) col) col) ?cols)"
      using that by (simp only: nth_map)
    moreover have "?shown ! i = ?rs ! i"
      using that by (simp only: length_take nth_take min_less_iff_conj)
    ultimately have "sequence (map (\<lambda>col. formatCellValue p (get_property p (?rs ! i) col) col) ?cols) = Inr (cells ! i)"
      using cells by metis
    then show ?thesis by (rule sequence_InrD)
  qed
  have g2: "length ?shown \<le> 10" by simp
  have g3: "length ?cols \<le> 6" by (simp add: spec_columns_def)
  have g4: "distinct ?cols" by (simp add: spec_columns_def first_seen_distinct)
  have g5: "by_tag ''th'' ?v = map (\<lambda>col. Element ''th'' [] [TextNode (formatColumnName col)]) ?cols"
    by (rule by_tag_th)
  have g6: "length (table_rows ?v) = length ?shown"
    by (simp only: table_rows_markup length_map len)
  have g7: "map Inr (map textContent (by_tag ''td'' (table_rows ?v ! i)))
             = map (\<lambda>col. formatCellValue p (get_property p (?rs ! i) col) col) ?cols"
    if "i < length ?shown" for i
  proof -
    have l: "length (cells ! i) = length ?cols"
      using arg_cong[OF row[OF that], of length] by (simp only: length_map)
    have "i < length cells" using that len by simp
    then have "table_rows ?v ! i = Element ''tr'' []
           (map (\<lambda>(col, cell). Element ''td'' (getColumnClass col) [TextNode cell]) (zip ?cols (cells ! i)))"
      by (simp only: table_rows_markup nth_map)
    then have "map textContent (by_tag ''td'' (table_rows ?v ! i)) = cells ! i"
      using by_tag_td[OF l] by (simp only:)
    then show ?thesis using row[OF that] by (simp only:)
  qed
  show ?thesis
    unfolding Cons Let_def
    using rt g2 g3 g4 g5 g6 g7 spec_columns_names[of ?shown] by blast
qed

theorem table_view_rows_and_columns_witness:
  "(\<exists>v. renderTable sample_platform (empty_envelope\<lparr>results := Some sample_rows\<rparr>) = Inr v
      \<and> map textContent (by_tag ''th'' v) = map js [''B'', ''A'', ''C'', ''D'', ''E'', ''F'']
      \<and> length (table_rows v) = 10)
   \<and> (\<exists>v. renderTable sample_platform (empty_envelope\<lparr>results := Some inherited_rows\<rparr>) = Inr v
      \<and> map textContent (by_tag ''td'' (table_rows v ! 1))
           = [js ''function Object() { [native code] }'', js ''y''])"
proof
  let ?d = "empty_envelope\<lparr>results := Some sample_rows\<rparr>"
  have r: "(case results ?d of None \<Rightarrow> [] | Some rs \<Rightarrow> rs) = sample_rows" by simp
  from table_view_rows_and_columns [of sample_platform ?d]
  obtain v where v: "renderTable sample_platform ?d = Inr v"
    and th: "by_tag ''th'' v = map (\<lambda>col. Element ''th'' [] [TextNode (formatColumnName col)])
                                 (spec_columns (take 10 sample_rows))"
    and n: "length (table_rows v) = length (take 10 sample_rows)"
    unfolding r Let_def by blast
  have "map textContent (by_tag ''th'' v) = map formatColumnName (spec_columns (take 10 sample_rows))"
    unfolding th by (simp add: comp_def)
  then have "map textContent (by_tag ''th'' v) = map js [''B'', ''A'', ''C'', ''D'', ''E'', ''F'']"
    by (simp only: sample_rows_columns sample_rows_headers)
  with v n show "\<exists>v. renderTable sample_platform ?d = Inr v
      \<and> map textContent (by_tag ''th'' v) = map js [''B'', ''A'', ''C'', ''D'', ''E'', ''F'']
      \<and> length (table_rows v) = 10"
    by (simp only: sample_rows_shown) blast
next
  let ?d = "empty_envelope\<lparr>results := Some inherited_rows\<rparr>"
  have r: "(case results ?d of None \<Rightarrow> [] | Some rs \<Rightarrow> rs) = inherited_rows" by simp
  have l: "1 < length (take 10 inherited_rows)" by (simp add: inherited_rows_def)
  from table_view_rows_and_columns [of sample_platform ?d]
  obtain v where v: "renderTable sample_platform ?d = Inr v"
    and c: "\<forall>i<length (take 10 inherited_rows).
              map Inr (map textContent (by_tag ''td'' (table_rows v ! i)))
                = map (\<lambda>col. formatCellValue sample_platform
                                (get_property sample_platform (inherited_rows ! i) col) col)
                    (spec_columns (take 10 inherited_rows))"
    unfolding r Let_def by blast
  from c l have "map Inr (map textContent (by_tag ''td'' (table_rows v ! 1)))
      = map (\<lambda>col. formatCellValue sample_platform
                      (get_property sample_platform (inherited_rows ! 1) col) col)
          (spec_columns (take 10 inherited_rows))"
    by blast
  then have "map (Inr :: jsstring \<Rightarrow> js_exception + jsstring)
                 (map textContent (by_tag ''td'' (table_rows v ! 1)))
      = map Inr [js ''function Object() { [native code] }'', js ''y'']"
    by (simp only: inherited_rows_columns inherited_rows_cells)
  then have "map textContent (by_tag ''td'' (table_rows v ! 1))
      = [js ''function Object() { [native code] }'', js ''y'']"
    by (rule map_injective) (rule inj_Inr)
  with v show "\<exists>v. renderTable sample_platform ?d = Inr v
      \<and> map textContent (by_tag ''td'' (table_rows v ! 1))
           = [js ''function Object() { [native code] }'', js ''y'']"
    by (intro exI[of _ v] conjI)
qed

text \<open>What the cell formatter does on a number, on a string that parses as a date, on an
  inherited value and on an absent one.\<close>

lemma number_in_currency_column:
  "includes_str column (js ''price'') \<or> includes_str column (js ''salary'') \<Longrightarrow>
     formatCellValue p (Own (JNum x)) column = Inr (js ''$'' @ Number_toLocaleString p x)"
  by (simp add: formatCellValue_def is_string_def is_number_def)

lemma number_in_other_column:
  "\<not> includes_str column (js ''price'') \<Longrightarrow> \<not> includes_str column (js ''salary'') \<Longrightarrow>
     formatCellValue p (Own (JNum x)) column = Inr (Number_toString p x)"
  by (simp add: formatCellValue_def is_string_def is_number_def)

lemma parsed_date_cell:
  "includes_str s (js ''T'') \<Longrightarrow> includes_str s (js ''Z'') \<Longrightarrow> Date_parse p s = Some t \<Longrightarrow>
     formatCellValue p (Own (JStr s)) column = Inr (Date_toLocaleDateString p t)"
  by (simp add: formatCellValue_def is_string_def string_of_def new_Date_toLocaleDateString_def)

lemma unparsed_date_cell:
  "includes_str s (js ''T'') \<Longrightarrow> includes_str s (js ''Z'') \<Longrightarrow> Date_parse p s = None \<Longrightarrow>
     formatCellValue p (Own (JStr s)) column = Inr (js ''Invalid Date'')"
  by (simp add: formatCellValue_def is_string_def string_of_def new_Date_toLocaleDateString_def)

lemma inherited_cell:
  "formatCellValue p (Inherited t) column
     = Inr (if includes_str column (js ''salary'') then js ''$'' @ t else t)"
  by (simp add: formatCellValue_def is_string_def is_number_def)

lemma absent_cell:
  "map_of r k = None \<Longrightarrow> Object_prototype p k = None \<Longrightarrow>
     formatCellValue p (get_property p r k) column = Inr (js ''-'')"
  by (simp add: formatCellValue_def get_property_def)

lemma string_in_salary_cell:
  "\<not> (includes_str s (js ''T'') \<and> includes_str s (js ''Z'')) \<Longrightarrow>
     includes_str column (js ''salary'') \<Longrightarrow>
     formatCellValue p (Own (JStr s)) column = Inr (js ''$'' @ s)"
  by (auto simp: formatCellValue_def is_string_def is_number_def string_of_def)

text \<open>
  C4, at an input where the code departs from it: the string \<open>N/A\<close> in a column named
  \<open>salary\<close>. The test reads \<open>(number && price) || salary\<close>, so the cell is given the
  currency prefix although its value is not a number.
\<close>

theorem string_in_salary_column:
  "formatCellValue sample_platform (Own (JStr (js ''N/A''))) (js ''salary'') = Inr (js ''$N/A'')"
  by (simp add: formatCellValue_def is_string_def is_number_def string_of_def js_simps)

text \<open>
  C5, at an input where the code departs from it: the string \<open>TechZone\<close>, which holds a
  \<open>T\<close> and a \<open>Z\<close> and does not parse as a date. Nothing is thrown, so the \<open>catch\<close>
  that would return the string is not reached, and the cell shows \<open>Invalid Date\<close>.
\<close>

theorem unparsable_date_shown_as_Invalid_Date:
  "Date_parse sample_platform (js ''TechZone'') = None
   \<and> formatCellValue sample_platform (Own (JStr (js ''TechZone''))) (js ''company'')
       = Inr (js ''Invalid Date'')"
  by (simp add: formatCellValue_def is_string_def is_number_def string_of_def js_simps
      new_Date_toLocaleDateString_def sample_platform_def)

section \<open>The presenter: timeline\<close>

lemma textContent_sample:
  "textContent (timeline_sample p sample) = take 100 (JSON_stringify p sample) @ js ''...''"
  by (simp add: timeline_sample_def substring_0)

lemma by_class_sample_entry:
  "by_class ''timeline-sample'' (timeline_entry p item) =
     (case t_items item of None \<Rightarrow> [] | Some its \<Rightarrow> map (timeline_sample p) (take 2 its))"
  by (cases "t_items item") (simp_all add: timeline_entry_def timeline_sample_def slice0_def comp_def)

lemma by_class_item_entry: "by_class ''timeline-item'' (timeline_entry p item) = [timeline_entry p item]"
  by (cases "t_items item") (simp_all add: timeline_entry_def timeline_sample_def comp_def concat_map_Nil)

lemma by_class_item_timeline:
  "timeline d = Some tln \<Longrightarrow> by_class ''timeline-item'' (renderTimeline p d) = map (timeline_entry p) tln"
  by (cases tln) (simp_all add: renderTimeline_def comp_def by_class_item_entry)

text \<open>
  C10. The timeline view has one entry per bucket, in order. In the entry of a bucket with
  \<open>items\<close>, the samples shown are those of the first two items and no others, and the
  text of each is the first 100 code units of the item's JSON serialization followed by
  three dots, whatever the length of the serialization; a bucket without \<open>items\<close> shows
  no sample.
\<close>

theorem timeline_samples_truncated:
  assumes "timeline d = Some tln"
  shows "by_class ''timeline-item'' (renderTimeline p d) = map (timeline_entry p) tln
       \<and> (\<forall>item\<in>set tln.
             map textContent (by_class ''timeline-sample'' (timeline_entry p item)) =
               (case t_items item of
                  None \<Rightarrow> []
                | Some its \<Rightarrow> map (\<lambda>sample. take 100 (JSON_stringify p sample) @ js ''...'') (take 2 its))
           \<and> length (by_class ''timeline-sample'' (timeline_entry p item)) \<le> 2)"
  using assms
  by (auto simp: by_class_item_timeline by_class_sample_entry textContent_sample comp_def split: option.splits)

theorem timeline_samples_truncated_witness:
  "map textContent
     (by_class ''timeline-sample'' (timeline_entry sample_platform (sample_timeline ! 0)))
     = [js ''{}...'', js ''{}...'']
   \<and> by_class ''timeline-sample'' (timeline_entry sample_platform (sample_timeline ! 1)) = []"
proof -
  let ?d = "empty_envelope\<lparr>timeline := Some sample_timeline\<rparr>"
  have t: "timeline ?d = Some sample_timeline" by simp
  have m: "sample_timeline ! 0 \<in> set sample_timeline" "sample_timeline ! 1 \<in> set sample_timeline"
    by (simp_all add: sample_timeline_def)
  have "length (by_class ''timeline-sample'' (timeline_entry sample_platform (sample_timeline ! 1))) = 0"
    by (simp add: by_class_sample_entry sample_timeline_def)
  then show ?thesis
    using timeline_samples_truncated [OF t, of sample_platform] m
    by (simp add: sample_timeline_def sample_platform_def js_simps)
qed

section \<open>The presenter: what is rendered, and the two toggles\<close>

lemma envelope_keys_empty_iff:
  "envelope_keys d = [] \<longleftrightarrow>
     total_results d = None \<and> sources d = None \<and> summary d = None \<and> aggregations d = None
     \<and> results d = None \<and> timeline d = None \<and> metadata d = None"
  by (simp add: envelope_keys_def)

lemma results_content_total: "\<exists>v. results_content p d st = Inr v"
  using renderTable_total[of p d] by (auto simp: results_content_def)

lemma ResultsDisplay_Blank_iff:
  "ResultsDisplay p (Some d) st = Inr Blank \<longleftrightarrow> envelope_keys d = []"
  by (auto simp: ResultsDisplay_def split: sum.splits)

text \<open>
  C8, as the code has it. The presenter returns \<open>null\<close> (and draws nothing) when it is
  given no envelope, and for an envelope exactly when the envelope has no key at all:
  every one of its fields absent. A field that is present, an empty one too, makes it
  render.
\<close>

theorem keyless_envelope_renders_nothing:
  "ResultsDisplay p None st = Inr Blank
   \<and> (ResultsDisplay p (Some d) st = Inr Blank \<longleftrightarrow>
        total_results d = None \<and> sources d = None \<and> summary d = None \<and> aggregations d = None
        \<and> results d = None \<and> timeline d = None \<and> metadata d = None)"
  by (simp add: ResultsDisplay_Blank_iff envelope_keys_empty_iff) (simp add: ResultsDisplay_def)

theorem keyless_envelope_renders_nothing_witness:
  "ResultsDisplay sample_platform (Some empty_envelope) initial_state = Inr Blank"
  using keyless_envelope_renders_nothing [of sample_platform initial_state empty_envelope]
  by (simp add: empty_envelope_def)

text \<open>With "absent or empty" in place of "absent" the statement fails, on an envelope
  whose only key is an empty \<open>results\<close>: it is rendered.\<close>

theorem empty_results_counterexample:
  "ResultsDisplay sample_platform (Some (empty_envelope\<lparr>results := Some []\<rparr>)) initial_state
     \<noteq> Inr Blank"
  by (simp add: ResultsDisplay_Blank_iff envelope_keys_def)

text \<open>
  C9. The raw toggle changes \<open>showRawData\<close> and nothing else: the view mode is kept, two
  clicks give back the state there was, and with it the very same render, for every
  envelope and every view mode.
\<close>

theorem raw_toggle_round_trip:
  "viewMode (onClick RawDataToggle st) = viewMode st
   \<and> showRawData (onClick RawDataToggle st) = (\<not> showRawData st)
   \<and> onClick RawDataToggle (onClick RawDataToggle st) = st
   \<and> ResultsDisplay p data' (onClick RawDataToggle (onClick RawDataToggle st))
       = ResultsDisplay p data' st"
  by (simp add: onClick_def setShowRawData_def)

theorem raw_toggle_round_trip_witness:
  "onClick RawDataToggle (onClick RawDataToggle (setViewMode ''table'' initial_state))
     = \<lparr>viewMode = ''table'', showRawData = False\<rparr>
   \<and> onClick RawDataToggle (setViewMode ''table'' initial_state)
     = \<lparr>viewMode = ''table'', showRawData = True\<rparr>"
  using raw_toggle_round_trip [of "setViewMode ''table'' initial_state"]
  by (simp add: setViewMode_def initial_state_def onClick_def setShowRawData_def)

lemma buttons_renderAggregations: "buttons (renderAggregations p d) = []"
  by (auto simp: renderAggregations_def scalar_child_def formatValue_def split: option.splits agg_value.splits scalar.splits)

lemma buttons_renderSummary: "buttons (renderSummary p d) = []"
  by (auto simp: renderSummary_def buttons_renderAggregations scalar_child_def Let_def split: option.splits scalar.splits)

lemma buttons_table_markup: "buttons (table_markup d shown cols cells) = []"
  by (auto simp: table_markup_def)

lemma buttons_renderTable: "renderTable p d = Inr v \<Longrightarrow> buttons v = []"
  by (auto simp: renderTable_def buttons_table_markup Let_def split: option.splits if_splits sum.splits)

lemma buttons_renderTimeline: "buttons (renderTimeline p d) = []"
  by (auto simp: renderTimeline_def timeline_entry_def timeline_sample_def split: option.splits)

lemma buttons_results_content: "results_content p d st = Inr v \<Longrightarrow> buttons v = []"
  by (auto simp: results_content_def renderRawData_def buttons_renderSummary buttons_renderTimeline buttons_renderTable split: if_splits sum.splits)

lemma buttons_results_header:
  "set (buttons (results_header d st)) =
     {SummaryButton, RawDataToggle}
     \<union> (if (case results d of None \<Rightarrow> False | Some rs \<Rightarrow> rs \<noteq> []) then {TableButton} else {})
     \<union> (if (case timeline d of None \<Rightarrow> False | Some tln \<Rightarrow> tln \<noteq> []) then {TimelineButton} else {})"
  by (auto simp: results_header_def split: option.splits)

lemma buttons_ResultsDisplay:
  assumes "envelope_keys d \<noteq> []"
  shows "\<exists>v. ResultsDisplay p (Some d) st = Inr v
           \<and> set (buttons v) = set (buttons (results_header d st))"
proof -
  obtain c where c: "results_content p d st = Inr c" using results_content_total by blast
  then have "buttons c = []" by (rule buttons_results_content)
  with c assms show ?thesis by (simp add: ResultsDisplay_def)
qed

text \<open>
  C7. Selecting a mode is clicking its button, the only caller of \<open>setViewMode\<close>, and a
  click can only land on a button that is rendered. On an envelope that has a key, the
  Summary button and the raw toggle are always there, the Table button exactly when
  \<open>results\<close> is non-empty and the Timeline button exactly when \<open>timeline\<close> is. So an
  ineligible mode cannot be selected: there is no click, the state stays what it is and
  nothing is thrown. A click on a mode button that is there stores its mode, which is
  eligible; every change of the view mode lands on an eligible mode, and from an eligible
  view mode every click leads to an eligible one. The raw toggle flips \<open>showRawData\<close>
  whatever the state and leaves the view mode alone.
\<close>

theorem offered_controls:
  assumes "envelope_keys d \<noteq> []"
  shows "click p (Some d) st c =
           (if (c = TableButton \<and> \<not> eligible d ''table'')
               \<or> (c = TimelineButton \<and> \<not> eligible d ''timeline'')
            then None else Some (onClick c st))
       \<and> (\<forall>st'. click p (Some d) st c = Some st' \<and> eligible d (viewMode st)
                  \<longrightarrow> eligible d (viewMode st'))
       \<and> (\<forall>st'. click p (Some d) st c = Some st' \<and> viewMode st' \<noteq> viewMode st
                  \<longrightarrow> eligible d (viewMode st'))
       \<and> (\<forall>st'. click p (Some d) st c = Some st' \<and> c \<noteq> RawDataToggle
                  \<longrightarrow> showRawData st' = showRawData st)
       \<and> click p (Some d) st RawDataToggle = Some (st\<lparr>showRawData := \<not> showRawData st\<rparr>)
       \<and> onClick RawDataToggle st = st\<lparr>showRawData := \<not> showRawData st\<rparr>
       \<and> setViewMode m st = st\<lparr>viewMode := m\<rparr>"
proof -
  obtain v where v: "ResultsDisplay p (Some d) st = Inr v"
    and b: "set (buttons v) = set (buttons (results_header d st))"
    using buttons_ResultsDisplay[OF assms] by blast
  have 1: "click p (Some d) st c =
           (if (c = TableButton \<and> \<not> eligible d ''table'')
               \<or> (c = TimelineButton \<and> \<not> eligible d ''timeline'')
            then None else Some (onClick c st))"
    by (cases c) (auto simp: click_def v b buttons_results_header eligible_def split: option.splits)
  have 2: "eligible d (viewMode st')"
    if "click p (Some d) st c = Some st'" "eligible d (viewMode st)" for st'
    using that unfolding 1
    by (cases c) (auto simp: onClick_def setViewMode_def setShowRawData_def eligible_def split: if_splits)
  have 3: "eligible d (viewMode st')"
    if "click p (Some d) st c = Some st'" "viewMode st' \<noteq> viewMode st" for st'
    using that unfolding 1
    by (cases c) (auto simp: onClick_def setViewMode_def setShowRawData_def eligible_def split: if_splits)
  have 4: "showRawData st' = showRawData st"
    if "click p (Some d) st c = Some st'" "c \<noteq> RawDataToggle" for st'
    using that unfolding 1
    by (cases c) (auto simp: onClick_def setViewMode_def split: if_splits)
  have 5: "click p (Some d) st RawDataToggle = Some (st\<lparr>showRawData := \<not> showRawData st\<rparr>)"
    by (auto simp: click_def v b buttons_results_header onClick_def setShowRawData_def)
  show ?thesis
    using 1 2 3 4 5 by (simp add: onClick_def setShowRawData_def setViewMode_def)
qed

theorem offered_controls_witness:
  "click sample_platform (Some (empty_envelope\<lparr>summary := Some (js ''ok'')\<rparr>)) initial_state
     TableButton = None
   \<and> click sample_platform (Some (empty_envelope\<lparr>summary := Some (js ''ok'')\<rparr>)) initial_state
     RawDataToggle = Some \<lparr>viewMode = ''summary'', showRawData = True\<rparr>
   \<and> click sample_platform (Some (empty_envelope\<lparr>results := Some inherited_rows\<rparr>)) initial_state
     TableButton = Some \<lparr>viewMode = ''table'', showRawData = False\<rparr>"
proof -
  let ?d = "empty_envelope\<lparr>summary := Some (js ''ok'')\<rparr>"
  let ?d' = "empty_envelope\<lparr>results := Some inherited_rows\<rparr>"
  have k: "envelope_keys ?d \<noteq> []" and k': "envelope_keys ?d' \<noteq> []"
    by (simp_all add: envelope_keys_def)
  have e: "\<not> eligible ?d ''table''" by (simp add: eligible_def empty_envelope_def)
  have e': "eligible ?d' ''table''" by (simp add: eligible_def inherited_rows_def)
  show ?thesis
    using e e' offered_controls [OF k, of sample_platform initial_state TableButton]
      offered_controls [OF k, of sample_platform initial_state RawDataToggle]
      offered_controls [OF k', of sample_platform initial_state TableButton]
    by (simp add: initial_state_def onClick_def setViewMode_def)
qed

end
